theory Spec2Isabelle
  imports Complex_Main "HOL-Library.Multiset"
begin

section \<open>Meter segment (generic\_meter\_segment.cpp)\<close>

text \<open>
  The members of \<^verbatim>\<open>GenericMeterSegment\<close> that the functions of
  \<^verbatim>\<open>generic_meter_segment.cpp\<close> read and write. The C++ \<^verbatim>\<open>float\<close> values are
  idealised as real numbers: the arithmetic is exact and every value is a number (there is
  no NaN and no infinity). The type of \<^verbatim>\<open>colPeak\<close> (a JUCE \<^verbatim>\<open>Colour\<close>) is not
  declared in these files and is a type parameter. The calls of \<^verbatim>\<open>repaint\<close> are
  counted in \<open>repaints\<close>, so that requesting a repaint is a visible effect of a call.
  What depends on the rounding of \<^verbatim>\<open>float\<close> arithmetic is stated on the single
  precision model of the next section.
\<close>

record 'c GenericMeterSegment =
  lowerThreshold :: real
  thresholdRange :: real
  upperThreshold :: real
  hasHighestLevel :: bool
  lightPeakMarker :: bool
  fBrightness :: real
  fBrightnessOutline :: real
  fHue :: real
  colPeak :: 'c
  repaints :: nat

text \<open>\<^verbatim>\<open>repaint()\<close> and \<^verbatim>\<open>repaint(getLocalBounds())\<close>: one more repaint requested.\<close>

definition repaint :: "'c GenericMeterSegment \<Rightarrow> 'c GenericMeterSegment" where
  "repaint s = s\<lparr>repaints := Suc (repaints s)\<rparr>"

text \<open>\<^verbatim>\<open>setThresholds\<close> (lines 84--102) returns the upper threshold and the new state.\<close>

definition setThresholds ::
  "'c GenericMeterSegment \<Rightarrow> real \<Rightarrow> real \<Rightarrow> bool \<Rightarrow> real \<times> 'c GenericMeterSegment" where
  "setThresholds s fLowerThreshold fDisplayRange bHasHighestLevel =
     (let s1 = s\<lparr>lowerThreshold := fLowerThreshold\<rparr>;
          s2 = s1\<lparr>thresholdRange := fDisplayRange\<rparr>;
          s3 = s2\<lparr>upperThreshold := lowerThreshold s2 + thresholdRange s2\<rparr>;
          s4 = s3\<lparr>lightPeakMarker := False\<rparr>;
          s5 = s4\<lparr>hasHighestLevel := bHasHighestLevel\<rparr>
      in (upperThreshold s5, s5))"

text \<open>\<^verbatim>\<open>setColour\<close> (lines 105--112).\<close>

definition setColour :: "'c GenericMeterSegment \<Rightarrow> real \<Rightarrow> 'c \<Rightarrow> 'c GenericMeterSegment" where
  "setColour s fHueNew colPeakNew = repaint (s\<lparr>fHue := fHueNew, colPeak := colPeakNew\<rparr>)"

text \<open>
  \<^verbatim>\<open>setLevels\<close> (lines 171--259) in three steps, in the order of the source: the
  brightness chain (lines 177--209), the peak marker (lines 211--251) and the conditional
  repaint (lines 253--258).
\<close>

definition setBrightness ::
  "'c GenericMeterSegment \<Rightarrow> real \<Rightarrow> real \<Rightarrow> 'c GenericMeterSegment" where
  "setBrightness s normalLevel discreteLevel =
     (if normalLevel \<ge> upperThreshold s then
        s\<lparr>fBrightness := 0.97, fBrightnessOutline := 0.90\<rparr>
      else if discreteLevel \<ge> lowerThreshold s \<and> discreteLevel < upperThreshold s then
        s\<lparr>fBrightness := 0.97, fBrightnessOutline := 0.90\<rparr>
      else if normalLevel < lowerThreshold s then
        s\<lparr>fBrightness := 0.25, fBrightnessOutline := 0.30\<rparr>
      else
        (let s1 = s\<lparr>fBrightness := (normalLevel - lowerThreshold s) / thresholdRange s\<rparr>;
             s2 = s1\<lparr>fBrightnessOutline := fBrightness s1\<rparr>;
             s3 = s2\<lparr>fBrightness := fBrightness s2 * 0.72 + 0.25\<rparr>
         in s3\<lparr>fBrightnessOutline := fBrightnessOutline s3 * 0.60 + 0.30\<rparr>))"

definition setPeakMarker ::
  "'c GenericMeterSegment \<Rightarrow> real \<Rightarrow> real \<Rightarrow> 'c GenericMeterSegment" where
  "setPeakMarker s normalLevelPeak discreteLevelPeak =
     (if hasHighestLevel s then
        (if normalLevelPeak \<ge> lowerThreshold s then s\<lparr>lightPeakMarker := True\<rparr>
         else if discreteLevelPeak \<ge> lowerThreshold s then s\<lparr>lightPeakMarker := True\<rparr>
         else s\<lparr>lightPeakMarker := False\<rparr>)
      else
        (if normalLevelPeak \<ge> lowerThreshold s \<and> normalLevelPeak < upperThreshold s then
           s\<lparr>lightPeakMarker := True\<rparr>
         else if discreteLevelPeak \<ge> lowerThreshold s \<and> discreteLevelPeak < upperThreshold s then
           s\<lparr>lightPeakMarker := True\<rparr>
         else s\<lparr>lightPeakMarker := False\<rparr>))"

definition setLevels ::
  "'c GenericMeterSegment \<Rightarrow> real \<Rightarrow> real \<Rightarrow> real \<Rightarrow> real \<Rightarrow> 'c GenericMeterSegment" where
  "setLevels s normalLevel discreteLevel normalLevelPeak discreteLevelPeak =
     (let fBrightnessOld = fBrightness s;
          lightPeakMarkerOld = lightPeakMarker s;
          s1 = setBrightness s normalLevel discreteLevel;
          s2 = setPeakMarker s1 normalLevelPeak discreteLevelPeak
      in if fBrightness s2 \<noteq> fBrightnessOld \<or> lightPeakMarker s2 \<noteq> lightPeakMarkerOld
         then repaint s2 else s2)"

text \<open>\<^verbatim>\<open>setNormalLevels\<close> and \<^verbatim>\<open>setDiscreteLevels\<close> (lines 157--168).\<close>

definition setNormalLevels ::
  "'c GenericMeterSegment \<Rightarrow> real \<Rightarrow> real \<Rightarrow> 'c GenericMeterSegment" where
  "setNormalLevels s normalLevel normalLevelPeak =
     setLevels s normalLevel (- 144.0) normalLevelPeak (- 144.0)"

definition setDiscreteLevels ::
  "'c GenericMeterSegment \<Rightarrow> real \<Rightarrow> real \<Rightarrow> 'c GenericMeterSegment" where
  "setDiscreteLevels s discreteLevel discreteLevelPeak =
     setLevels s (- 144.0) discreteLevel (- 144.0) discreteLevelPeak"

text \<open>Two segments for evaluating the functions above: the members of the second that
  \<^verbatim>\<open>setLevels\<close> overwrites differ from those of the first.\<close>

definition raw_segment :: "nat GenericMeterSegment" where
  "raw_segment = \<lparr>lowerThreshold = 3, thresholdRange = - 1, upperThreshold = 7,
     hasHighestLevel = True, lightPeakMarker = True, fBrightness = 5, fBrightnessOutline = 6,
     fHue = 1, colPeak = 0, repaints = 0\<rparr>"

definition lit_segment :: "nat GenericMeterSegment" where
  "lit_segment = \<lparr>lowerThreshold = - 20, thresholdRange = 10, upperThreshold = - 10,
     hasHighestLevel = False, lightPeakMarker = True, fBrightness = 0.97,
     fBrightnessOutline = 0.90, fHue = 0.3, colPeak = 7, repaints = 4\<rparr>"

section \<open>Meter segment in single precision\<close>

subsection \<open>binary32 arithmetic\<close>

text \<open>
  A C++ \<^verbatim>\<open>float\<close> is an IEEE 754 binary32 number. Its finite values are modelled as the
  real numbers they denote, and each arithmetic operation and each literal with suffix
  \<^verbatim>\<open>f\<close> as the exact real result rounded to the nearest binary32 value, ties to the even
  significand; there is no fused multiply-add and no wider intermediate. NaN and the
  infinities are not values of the model: it says nothing about a NaN operand, and a sum
  beyond the binary32 range, where the code holds an infinity, is kept as a finite number
  above every binary32 value, which compares with every finite level as the infinity does.
\<close>

text \<open>Rounding to the nearest integer, a tie to the even one.\<close>

definition round_even :: "real \<Rightarrow> int" where
  "round_even t =
     (if t - of_int \<lfloor>t\<rfloor> < 1 / 2 then \<lfloor>t\<rfloor>
      else if 1 / 2 < t - of_int \<lfloor>t\<rfloor> then \<lfloor>t\<rfloor> + 1
      else if even \<lfloor>t\<rfloor> then \<lfloor>t\<rfloor> else \<lfloor>t\<rfloor> + 1)"

text \<open>
  The binary exponent of \<open>x\<close>: the largest \<open>k\<close> from -125 to 127 with \<open>2^k \<le> |x|\<close>,
  and -126 below that (the subnormal numbers share the exponent of the smallest normal
  ones). \<open>exponent_from n\<close> searches the \<open>n\<close> exponents above -126 from the top.
\<close>

fun exponent_from :: "nat \<Rightarrow> real \<Rightarrow> int" where
  "exponent_from 0 x = - 126"
| "exponent_from (Suc n) x =
     (if 2 powi (int n - 125) \<le> \<bar>x\<bar> then int n - 125 else exponent_from n x)"

definition exponent :: "real \<Rightarrow> int" where
  "exponent x = exponent_from 253 x"

text \<open>
  Rounding to binary32: a significand of 24 bits, so the unit in the last place is
  \<open>2^(exponent x - 23)\<close>, and \<open>x\<close> is rounded to a multiple of it.
\<close>

definition binary32 :: "real \<Rightarrow> real" where
  "binary32 x = of_int (round_even (x / 2 powi (exponent x - 23))) * 2 powi (exponent x - 23)"

text \<open>The finite binary32 values: the numbers in range that rounding leaves as they are.\<close>

definition is_binary32 :: "real \<Rightarrow> bool" where
  "is_binary32 x \<longleftrightarrow> binary32 x = x \<and> \<bar>x\<bar> < 2 ^ 128"

subsection \<open>The member functions with binary32 arithmetic\<close>

text \<open>
  The functions of \<^verbatim>\<open>generic_meter_segment.cpp\<close> that compute with \<^verbatim>\<open>float\<close> values or
  call one that does, with every operation and literal rounded: the addition of line 93,
  the subtraction and division of line 202, the multiplications and additions of lines
  207 and 208, and the literals of lines 181 to 208. The literals 0.0f and -144.0f are
  exact. \<^verbatim>\<open>setColour\<close>, \<^verbatim>\<open>setPeakMarker\<close> and \<^verbatim>\<open>repaint\<close> do no arithmetic and
  are those of the first section.
\<close>

text \<open>\<^verbatim>\<open>setThresholds\<close> (lines 84--102).\<close>

definition setThresholds32 ::
  "'c GenericMeterSegment \<Rightarrow> real \<Rightarrow> real \<Rightarrow> bool \<Rightarrow> real \<times> 'c GenericMeterSegment" where
  "setThresholds32 s fLowerThreshold fDisplayRange bHasHighestLevel =
     (let s1 = s\<lparr>lowerThreshold := fLowerThreshold\<rparr>;
          s2 = s1\<lparr>thresholdRange := fDisplayRange\<rparr>;
          s3 = s2\<lparr>upperThreshold := binary32 (lowerThreshold s2 + thresholdRange s2)\<rparr>;
          s4 = s3\<lparr>lightPeakMarker := False\<rparr>;
          s5 = s4\<lparr>hasHighestLevel := bHasHighestLevel\<rparr>
      in (upperThreshold s5, s5))"

text \<open>The brightness chain of \<^verbatim>\<open>setLevels\<close> (lines 177--209).\<close>

definition setBrightness32 ::
  "'c GenericMeterSegment \<Rightarrow> real \<Rightarrow> real \<Rightarrow> 'c GenericMeterSegment" where
  "setBrightness32 s normalLevel discreteLevel =
     (if normalLevel \<ge> upperThreshold s then
        s\<lparr>fBrightness := binary32 0.97, fBrightnessOutline := binary32 0.90\<rparr>
      else if discreteLevel \<ge> lowerThreshold s \<and> discreteLevel < upperThreshold s then
        s\<lparr>fBrightness := binary32 0.97, fBrightnessOutline := binary32 0.90\<rparr>
      else if normalLevel < lowerThreshold s then
        s\<lparr>fBrightness := binary32 0.25, fBrightnessOutline := binary32 0.30\<rparr>
      else
        (let s1 = s\<lparr>fBrightness :=
                      binary32 (binary32 (normalLevel - lowerThreshold s) / thresholdRange s)\<rparr>;
             s2 = s1\<lparr>fBrightnessOutline := fBrightness s1\<rparr>;
             s3 = s2\<lparr>fBrightness :=
                      binary32 (binary32 (fBrightness s2 * binary32 0.72) + binary32 0.25)\<rparr>
         in s3\<lparr>fBrightnessOutline :=
                 binary32 (binary32 (fBrightnessOutline s3 * binary32 0.60) + binary32 0.30)\<rparr>))"

text \<open>\<^verbatim>\<open>setLevels\<close> (lines 171--259).\<close>

definition setLevels32 ::
  "'c GenericMeterSegment \<Rightarrow> real \<Rightarrow> real \<Rightarrow> real \<Rightarrow> real \<Rightarrow> 'c GenericMeterSegment" where
  "setLevels32 s normalLevel discreteLevel normalLevelPeak discreteLevelPeak =
     (let fBrightnessOld = fBrightness s;
          lightPeakMarkerOld = lightPeakMarker s;
          s1 = setBrightness32 s normalLevel discreteLevel;
          s2 = setPeakMarker s1 normalLevelPeak discreteLevelPeak
      in if fBrightness s2 \<noteq> fBrightnessOld \<or> lightPeakMarker s2 \<noteq> lightPeakMarkerOld
         then repaint s2 else s2)"

text \<open>\<^verbatim>\<open>setNormalLevels\<close> and \<^verbatim>\<open>setDiscreteLevels\<close> (lines 157--168).\<close>

definition setNormalLevels32 ::
  "'c GenericMeterSegment \<Rightarrow> real \<Rightarrow> real \<Rightarrow> 'c GenericMeterSegment" where
  "setNormalLevels32 s normalLevel normalLevelPeak =
     setLevels32 s normalLevel (- 144.0) normalLevelPeak (- 144.0)"

definition setDiscreteLevels32 ::
  "'c GenericMeterSegment \<Rightarrow> real \<Rightarrow> real \<Rightarrow> 'c GenericMeterSegment" where
  "setDiscreteLevels32 s discreteLevel discreteLevelPeak =
     setLevels32 s (- 144.0) discreteLevel (- 144.0) discreteLevelPeak"

text \<open>
  The constructor (lines 29--76) runs on the object's raw storage \<open>s\<close>, whose members
  hold anything; \<^verbatim>\<open>colPeak\<close> keeps the value its own default constructor gave it.
\<close>

definition GenericMeterSegment_new32 ::
  "'c GenericMeterSegment \<Rightarrow> real \<Rightarrow> real \<Rightarrow> bool \<Rightarrow> 'c GenericMeterSegment" where
  "GenericMeterSegment_new32 s fLowerThreshold fDisplayRange bHasHighestLevel =
     (let s1 = snd (setThresholds32 s fLowerThreshold fDisplayRange bHasHighestLevel);
          s2 = s1\<lparr>fBrightness := 0.0\<rparr>;
          s3 = s2\<lparr>fBrightnessOutline := 0.0\<rparr>;
          s4 = s3\<lparr>fHue := 0.0\<rparr>
      in setLevels32 s4 (- 144.0) (- 144.0) (- 144.0) (- 144.0))"

text \<open>
  The segments a program can hold: built by the constructor from finite binary32
  thresholds, then changed only through the member functions of the file, the thresholds
  again finite binary32 values. \<^verbatim>\<open>paint\<close>, \<^verbatim>\<open>visibilityChanged\<close> and
  \<^verbatim>\<open>resized\<close> write no member.
\<close>

inductive segment32 :: "'c GenericMeterSegment \<Rightarrow> bool" where
  seg32_new: "is_binary32 lo \<Longrightarrow> is_binary32 rng \<Longrightarrow>
     segment32 (GenericMeterSegment_new32 s lo rng hl)"
| seg32_setThresholds: "segment32 s \<Longrightarrow> is_binary32 lo \<Longrightarrow> is_binary32 rng \<Longrightarrow>
     segment32 (snd (setThresholds32 s lo rng hl))"
| seg32_setColour: "segment32 s \<Longrightarrow> segment32 (setColour s h c)"
| seg32_setLevels: "segment32 s \<Longrightarrow> segment32 (setLevels32 s a b c d)"
| seg32_setNormalLevels: "segment32 s \<Longrightarrow> segment32 (setNormalLevels32 s a c)"
| seg32_setDiscreteLevels: "segment32 s \<Longrightarrow> segment32 (setDiscreteLevels32 s b d)"

section \<open>Dither unit (dither.h)\<close>

text \<open>
  The data members of \<^verbatim>\<open>class Dither\<close> as the header declares them (lines 44--54):
  \<^verbatim>\<open>int\<close> as \<open>int\<close> (no claim depends on their width) and \<^verbatim>\<open>double\<close> as \<open>real\<close>.
\<close>

record Dither =
  nRandomNumber_1 :: int
  nRandomNumber_2 :: int
  dErrorFeedback_1 :: real
  dErrorFeedback_2 :: real
  dDcOffset :: real
  dDitherAmplitude :: real
  dNoiseShaping :: real
  dWordLength :: real
  dWordLengthInverted :: real

text \<open>
  The header declares the noise shaping parameter of the constructor (line 36) and of
  \<^verbatim>\<open>initialise\<close> (line 38) with the default argument \<^verbatim>\<open>0.5\<close>. A call passes
  \<open>Some v\<close>, or \<open>None\<close> when it leaves the argument out; these are the parameters the
  function then runs with.
\<close>

definition Dither_args :: "int \<Rightarrow> real option \<Rightarrow> int \<times> real" where
  "Dither_args number_of_bits noise_shaping =
     (number_of_bits, case noise_shaping of None \<Rightarrow> 0.5 | Some v \<Rightarrow> v)"

definition initialise_args :: "int \<Rightarrow> real option \<Rightarrow> int \<times> real" where
  "initialise_args number_of_bits noise_shaping =
     (number_of_bits, case noise_shaping of None \<Rightarrow> 0.5 | Some v \<Rightarrow> v)"

subsection \<open>The member functions, from the specification\<close>

text \<open>
  Modelled from the spec: the two states of the engine (section 4.1), Unconfigured before
  the first successful \<^verbatim>\<open>configure\<close> and Configured after it. The header has no member
  for it and \<^verbatim>\<open>dither.cpp\<close>, which holds the bodies of the member functions, is not
  among the files.
\<close>

record DitherEngine = Dither +
  isConfigured :: bool

datatype dither_error = InvalidConfiguration | PreconditionViolation

text \<open>
  Modelled from the spec: what the missing \<^verbatim>\<open>dither.cpp\<close> fixes and the specification
  leaves open. The dither amplitude and the DC offset correction are "derived at
  configuration time" from the word length, by formulas it does not give; the two
  generators are "linear-congruential (or equivalent)", each updating its state and
  then extracting a deviate from it. They are parameters of the model.
\<close>

record dither_design =
  amplitude_of :: "int \<Rightarrow> real"
  dc_offset_of :: "int \<Rightarrow> real"
  rng_update :: "int \<Rightarrow> int"
  rng_deviate :: "int \<Rightarrow> real"

text \<open>
  Modelled from the spec: \<^verbatim>\<open>Dither::initialise\<close> (the spec's \<^verbatim>\<open>configure\<close>, section
  4.1), whose body is in the missing \<^verbatim>\<open>dither.cpp\<close>. It fails only for a non-positive
  number of bits; otherwise it stores the word length and the coefficient, derives
  \<open>1 / 2^(wordLength - 1)\<close> (section 3), the amplitude and the offset, and resets the
  error feedback history (the choice section 9 recommends). The generator states are left
  running.
\<close>

definition initialise ::
  "dither_design \<Rightarrow> DitherEngine \<Rightarrow> int \<Rightarrow> real \<Rightarrow> dither_error + DitherEngine" where
  "initialise D e number_of_bits noise_shaping =
     (if number_of_bits \<le> 0 then Inl InvalidConfiguration
      else Inr (e\<lparr>dErrorFeedback_1 := 0,
                  dErrorFeedback_2 := 0,
                  dNoiseShaping := noise_shaping,
                  dWordLength := of_int number_of_bits,
                  dWordLengthInverted := 1 / 2 ^ nat (number_of_bits - 1),
                  dDitherAmplitude := amplitude_of D number_of_bits,
                  dDcOffset := dc_offset_of D number_of_bits,
                  isConfigured := True\<rparr>))"

text \<open>
  Modelled from the spec: the engine after a call of \<^verbatim>\<open>configure\<close>; a call that raises
  leaves the prior configuration in place (section 7).
\<close>

definition reconfigured :: "dither_design \<Rightarrow> DitherEngine \<Rightarrow> int \<Rightarrow> real \<Rightarrow> DitherEngine" where
  "reconfigured D e number_of_bits noise_shaping =
     (case initialise D e number_of_bits noise_shaping of Inl err \<Rightarrow> e | Inr e' \<Rightarrow> e')"

text \<open>
  The steps of \<^verbatim>\<open>Dither::dither\<close> (the spec's \<^verbatim>\<open>process\<close>, section 4.1), whose
  body is in the missing \<^verbatim>\<open>dither.cpp\<close>, one definition per step.
\<close>

text \<open>
  Modelled from the spec: step 1 of \<^verbatim>\<open>process\<close>, the input sample plus the scaled
  error feedback term of the second-order noise shaping filter.
\<close>

definition shapedInput :: "DitherEngine \<Rightarrow> real \<Rightarrow> real" where
  "shapedInput e inputSample =
     inputSample + dNoiseShaping e * (2 * dErrorFeedback_1 e - dErrorFeedback_2 e)"

text \<open>
  Modelled from the spec: step 2 of \<^verbatim>\<open>process\<close>, first half: both generator states
  are updated before a deviate is extracted.
\<close>

definition advanceRng :: "dither_design \<Rightarrow> DitherEngine \<Rightarrow> DitherEngine" where
  "advanceRng D e = e\<lparr>nRandomNumber_1 := rng_update D (nRandomNumber_1 e),
                       nRandomNumber_2 := rng_update D (nRandomNumber_2 e)\<rparr>"

text \<open>
  Modelled from the spec: step 2 of \<^verbatim>\<open>process\<close>, second half: the two deviates of the
  updated states are summed, scaled by the dither amplitude and corrected by the DC
  offset correction.
\<close>

definition tpdfDither :: "dither_design \<Rightarrow> DitherEngine \<Rightarrow> real" where
  "tpdfDither D e =
     dDitherAmplitude e * (rng_deviate D (nRandomNumber_1 e) + rng_deviate D (nRandomNumber_2 e))
       + dDcOffset e"

text \<open>
  Modelled from the spec: step 3 of \<^verbatim>\<open>process\<close>, the dither deviate added to the
  shaped input.
\<close>

definition ditheredInput :: "dither_design \<Rightarrow> DitherEngine \<Rightarrow> real \<Rightarrow> real" where
  "ditheredInput D e inputSample = shapedInput e inputSample + tpdfDither D (advanceRng D e)"

text \<open>
  Modelled from the spec: step 4 of \<^verbatim>\<open>process\<close>, rounding to the nearest multiple of
  the quantization step \<open>1 / 2^(wordLength - 1)\<close>, which \<^verbatim>\<open>dWordLengthInverted\<close>
  holds. No clamping (section 4.1).
\<close>

definition quantise :: "DitherEngine \<Rightarrow> real \<Rightarrow> real" where
  "quantise e y = of_int (round (y / dWordLengthInverted e)) * dWordLengthInverted e"

text \<open>
  Modelled from the spec: \<^verbatim>\<open>Dither::dither\<close>, steps 1 to 6 of \<^verbatim>\<open>process\<close> in their
  order; in the Unconfigured state the call fails fast. It returns the quantized sample
  and the engine with the new generator states and error feedback history. The
  \<^verbatim>\<open>shapedInput\<close> of step 5 is the value step 1 gave that name; the sum of step 3 is
  "the result" that step 4 quantizes.
\<close>

definition dither ::
  "dither_design \<Rightarrow> DitherEngine \<Rightarrow> real \<Rightarrow> dither_error + (real \<times> DitherEngine)" where
  "dither D e inputSample =
     (if isConfigured e then
        (let shaped = shapedInput e inputSample;
             e1 = advanceRng D e;
             ditherDeviate = tpdfDither D e1;
             dithered = shaped + ditherDeviate;
             quantizedResult = quantise e1 dithered;
             quantizationError = quantizedResult - shaped;
             e2 = e1\<lparr>dErrorFeedback_2 := dErrorFeedback_1 e1\<rparr>;
             e3 = e2\<lparr>dErrorFeedback_1 := quantizationError\<rparr>
         in Inr (quantizedResult, e3))
      else Inl PreconditionViolation)"

text \<open>
  Modelled from the spec: \<^verbatim>\<open>process\<close> called once per sample of a sequence (section 3,
  lifecycle), the engine threaded through; it stops at the first call that fails.
\<close>

fun dither_all ::
  "dither_design \<Rightarrow> DitherEngine \<Rightarrow> real list \<Rightarrow> dither_error + (real list \<times> DitherEngine)" where
  "dither_all D e [] = Inr ([], e)"
| "dither_all D e (x # xs) =
     (case dither D e x of
        Inl err \<Rightarrow> Inl err
      | Inr (q, e') \<Rightarrow>
          (case dither_all D e' xs of
             Inl err \<Rightarrow> Inl err
           | Inr (qs, e'') \<Rightarrow> Inr (q # qs, e'')))"

text \<open>
  Modelled from the spec: the same, with both generators reseeded to \<open>a\<close> and \<open>b\<close>
  before each call (the test of section 8 for a coefficient of 0).
\<close>

fun dither_reseeded ::
  "dither_design \<Rightarrow> int \<Rightarrow> int \<Rightarrow> DitherEngine \<Rightarrow> real list
     \<Rightarrow> dither_error + (real list \<times> DitherEngine)" where
  "dither_reseeded D a b e [] = Inr ([], e)"
| "dither_reseeded D a b e (x # xs) =
     (case dither D (e\<lparr>nRandomNumber_1 := a, nRandomNumber_2 := b\<rparr>) x of
        Inl err \<Rightarrow> Inl err
      | Inr (q, e') \<Rightarrow>
          (case dither_reseeded D a b e' xs of
             Inl err \<Rightarrow> Inl err
           | Inr (qs, e'') \<Rightarrow> Inr (q # qs, e'')))"

text \<open>
  Modelled from the spec: plain TPDF-dithered quantization (section 4.1, step 1) of one
  sample with generators seeded \<open>a\<close> and \<open>b\<close>: the sample plus the dither deviate,
  rounded, with no error feedback term.
\<close>

definition plainTpdf :: "dither_design \<Rightarrow> DitherEngine \<Rightarrow> int \<Rightarrow> int \<Rightarrow> real \<Rightarrow> real" where
  "plainTpdf D e a b inputSample =
     quantise e (inputSample
       + (dDitherAmplitude e * (rng_deviate D (rng_update D a) + rng_deviate D (rng_update D b))
          + dDcOffset e))"

text \<open>
  Modelled from the spec: the engines in the Configured state (section 4.1): a successful
  \<^verbatim>\<open>configure\<close> of any engine, then any calls of \<^verbatim>\<open>process\<close>.
\<close>

inductive configured :: "dither_design \<Rightarrow> DitherEngine \<Rightarrow> bool" for D where
  cfg_initialise: "initialise D e0 n c = Inr e \<Longrightarrow> configured D e"
| cfg_dither: "configured D e \<Longrightarrow> dither D e x = Inr (q, e') \<Longrightarrow> configured D e'"

subsection \<open>One design, for evaluating the model\<close>

text \<open>
  One choice of what the specification leaves open, used only to evaluate the model on
  concrete engines; every property below is proved for all designs.
\<close>

text \<open>
  Modelled from the spec: a linear congruential generator (section 3) on 32-bit states,
  with multiplier 1664525 and increment 1013904223.
\<close>

definition lcg_update :: "int \<Rightarrow> int" where
  "lcg_update s = (1664525 * s + 1013904223) mod 2 ^ 32"

text \<open>
  Modelled from the spec: the uniform deviate in \<open>[-1, 1)\<close> (section 3) of a 32-bit
  state.
\<close>

definition lcg_deviate :: "int \<Rightarrow> real" where
  "lcg_deviate s = (of_int s - 2 ^ 31) / 2 ^ 31"

text \<open>
  Modelled from the spec: the amplitude is a quarter of the quantization step, so that the
  sum of two deviates, scaled, spans one step peak to peak, and the offset cancels the
  mean of that sum (section 3).
\<close>

definition lcg_design :: dither_design where
  "lcg_design = \<lparr>amplitude_of = (\<lambda>n. 1 / 2 ^ nat (n - 1) / 4),
                  dc_offset_of = (\<lambda>n. 1 / 2 ^ nat (n - 1) / 4 / 2 ^ 31),
                  rng_update = lcg_update,
                  rng_deviate = lcg_deviate\<rparr>"

text \<open>An engine before its first configuration, and a second one with other contents
  and the same generator states.\<close>

definition raw_engine :: DitherEngine where
  "raw_engine = \<lparr>nRandomNumber_1 = 1, nRandomNumber_2 = 2, dErrorFeedback_1 = 0,
     dErrorFeedback_2 = 0, dDcOffset = 0, dDitherAmplitude = 0, dNoiseShaping = 0,
     dWordLength = 0, dWordLengthInverted = 0, isConfigured = False\<rparr>"

definition used_engine :: DitherEngine where
  "used_engine = \<lparr>nRandomNumber_1 = 1, nRandomNumber_2 = 2, dErrorFeedback_1 = 0.25,
     dErrorFeedback_2 = - 0.125, dDcOffset = 0.5, dDitherAmplitude = 3, dNoiseShaping = 1,
     dWordLength = 8, dWordLengthInverted = 1 / 128, isConfigured = True\<rparr>"

text \<open>\<open>raw_engine\<close> after \<^verbatim>\<open>initialise(16, 0.5)\<close> under \<open>lcg_design\<close>.\<close>

definition engine16 :: DitherEngine where
  "engine16 = \<lparr>nRandomNumber_1 = 1, nRandomNumber_2 = 2, dErrorFeedback_1 = 0,
     dErrorFeedback_2 = 0, dDcOffset = 1 / 32768 / 4 / 2 ^ 31, dDitherAmplitude = 1 / 32768 / 4,
     dNoiseShaping = 0.5, dWordLength = 16, dWordLengthInverted = 1 / 32768,
     isConfigured = True\<rparr>"

section \<open>Properties of the meter segment\<close>

subsection \<open>Field lemmas\<close>

lemma setBrightness_thresholds [simp]:
  "lowerThreshold (setBrightness s a b) = lowerThreshold s"
  "thresholdRange (setBrightness s a b) = thresholdRange s"
  "upperThreshold (setBrightness s a b) = upperThreshold s"
  "hasHighestLevel (setBrightness s a b) = hasHighestLevel s"
  by (simp_all add: setBrightness_def Let_def)

lemma setPeakMarker_fields [simp]:
  "lowerThreshold (setPeakMarker s c d) = lowerThreshold s"
  "thresholdRange (setPeakMarker s c d) = thresholdRange s"
  "upperThreshold (setPeakMarker s c d) = upperThreshold s"
  "fBrightness (setPeakMarker s c d) = fBrightness s"
  "fBrightnessOutline (setPeakMarker s c d) = fBrightnessOutline s"
  by (simp_all add: setPeakMarker_def)

lemma repaint_fields [simp]:
  "lowerThreshold (repaint s) = lowerThreshold s"
  "thresholdRange (repaint s) = thresholdRange s"
  "upperThreshold (repaint s) = upperThreshold s"
  "hasHighestLevel (repaint s) = hasHighestLevel s"
  "lightPeakMarker (repaint s) = lightPeakMarker s"
  "fBrightness (repaint s) = fBrightness s"
  "fBrightnessOutline (repaint s) = fBrightnessOutline s"
  by (simp_all add: repaint_def)

lemma setLevels_brightness:
  "fBrightness (setLevels s a b c d) = fBrightness (setBrightness s a b)"
  "fBrightnessOutline (setLevels s a b c d) = fBrightnessOutline (setBrightness s a b)"
  by (simp_all add: setLevels_def Let_def)

lemma setLevels_marker:
  "lightPeakMarker (setLevels s a b c d) = lightPeakMarker (setPeakMarker (setBrightness s a b) c d)"
  by (simp add: setLevels_def Let_def)

subsection \<open>binary32 rounding\<close>

text \<open>An integer bound on a number bounds its rounding to an integer.\<close>

lemma round_even_le: "t \<le> of_int N \<Longrightarrow> round_even t \<le> N"
  unfolding round_even_def by (auto simp: floor_le_iff)

lemma round_even_ge:
  assumes "of_int N \<le> t"
  shows "N \<le> round_even t"
proof -
  from assms have "N \<le> \<lfloor>t\<rfloor>" by (simp add: le_floor_iff)
  then show ?thesis by (simp add: round_even_def)
qed

lemma pow2_less_imp: "(2::real) powi a < 2 powi b \<Longrightarrow> a < b"
proof (rule ccontr)
  assume l: "(2::real) powi a < 2 powi b" and "\<not> a < b"
  then have "b \<le> a" by simp
  then have "(2::real) powi b \<le> 2 powi a"
    by (intro power_int_increasing) simp_all
  with l show False by simp
qed

lemma exponent_from_ge: "- 126 \<le> exponent_from n x"
  by (induction n) auto

lemma exponent_from_lower:
  "- 126 < exponent_from n x \<Longrightarrow> 2 powi (exponent_from n x) \<le> \<bar>x\<bar>"
  by (induction n) (auto split: if_splits)

lemma exponent_from_upper:
  "\<bar>x\<bar> < 2 powi (int n - 125) \<Longrightarrow> \<bar>x\<bar> < 2 powi (exponent_from n x + 1)"
proof (induction n)
  case 0
  then show ?case by simp
next
  case (Suc n)
  show ?case
  proof (cases "2 powi (int n - 125) \<le> \<bar>x\<bar>")
    case True
    with Suc.prems show ?thesis by (simp add: algebra_simps)
  next
    case False
    then have "\<bar>x\<bar> < 2 powi (int n - 125)" by simp
    from Suc.IH [OF this] False show ?thesis by simp
  qed
qed


lemma exponent_ge: "- 126 \<le> exponent x"
  by (simp add: exponent_def exponent_from_ge)

lemma exponent_lower: "- 126 < exponent x \<Longrightarrow> 2 powi (exponent x) \<le> \<bar>x\<bar>"
  by (simp add: exponent_def exponent_from_lower)

lemma exponent_upper: "\<bar>x\<bar> < 2 ^ 128 \<Longrightarrow> \<bar>x\<bar> < 2 powi (exponent x + 1)"
  using exponent_from_upper [of x 253] by (simp add: exponent_def)

lemma exponent_eqI:
  assumes "2 powi k \<le> \<bar>x\<bar>" and "\<bar>x\<bar> < 2 powi (k + 1)" and "- 126 \<le> k" and "k \<le> 127"
  shows "exponent x = k"
proof -
  have "(2::real) powi (k + 1) \<le> 2 powi 128"
    using assms(4) by (intro power_int_increasing) simp_all
  with assms(2) have small: "\<bar>x\<bar> < 2 ^ 128" by simp
  have up: "\<bar>x\<bar> < 2 powi (exponent x + 1)"
    using small by (rule exponent_upper)
  with assms(1) have "(2::real) powi k < 2 powi (exponent x + 1)" by simp
  then have 1: "k < exponent x + 1"
    by (rule pow2_less_imp)
  show ?thesis
  proof (cases "- 126 < exponent x")
    case True
    then have "2 powi (exponent x) \<le> \<bar>x\<bar>" by (rule exponent_lower)
    with assms(2) have "(2::real) powi (exponent x) < 2 powi (k + 1)" by simp
    then have "exponent x < k + 1"
      by (rule pow2_less_imp)
    with 1 show ?thesis by simp
  next
    case False
    with exponent_ge [of x] have "exponent x = - 126" by simp
    with 1 assms(3) show ?thesis by simp
  qed
qed

lemma exponent_subnormal: "\<bar>x\<bar> < 2 powi (- 126) \<Longrightarrow> exponent x = - 126"
proof (rule ccontr)
  assume a: "\<bar>x\<bar> < 2 powi (- 126)" and n: "exponent x \<noteq> - 126"
  with exponent_ge [of x] have g: "- 126 < exponent x" by simp
  then have "2 powi (exponent x) \<le> \<bar>x\<bar>" by (rule exponent_lower)
  with a have "(2::real) powi (exponent x) < 2 powi (- 126)" by simp
  then have "exponent x < - 126"
    by (rule pow2_less_imp)
  with g show False by simp
qed

text \<open>
  Rounding never passes a binary32 value: a number at most (at least) a binary32 value
  rounds to at most (at least) that value.
\<close>

lemma pow2_split: "(2::real) powi e = 2 ^ 23 * 2 powi (e - 23)"
proof -
  have "(2::real) powi (23 + (e - 23)) = 2 powi 23 * 2 powi (e - 23)"
    by (rule power_int_add) simp
  then show ?thesis by simp
qed

lemma pow2_shift:
  assumes "a \<le> b"
  shows "(2::real) powi b = of_int (2 ^ nat (b - a)) * 2 powi a"
proof -
  have "(2::real) powi ((b - a) + a) = 2 powi (b - a) * 2 powi a"
    by (rule power_int_add) simp
  moreover have "(2::real) powi (b - a) = 2 ^ nat (b - a)"
    using assms by (simp add: power_int_nonneg_exp)
  ultimately show ?thesis by simp
qed

lemma binary32_le:
  assumes xy: "x \<le> y" and fy: "is_binary32 y"
  shows "binary32 x \<le> y"
proof -
  define px where "px = (2::real) powi (exponent x - 23)"
  define n where "n = round_even (y / 2 powi (exponent y - 23))"
  have px: "0 < px" by (simp add: px_def)
  have y: "y = of_int n * 2 powi (exponent y - 23)"
    using fy by (simp add: is_binary32_def binary32_def n_def)
  have bx: "binary32 x = of_int (round_even (x / px)) * px"
    by (simp add: binary32_def px_def)
  show ?thesis
  proof (cases "exponent x \<le> exponent y")
    case True
    then have "(2::real) powi (exponent y - 23)
        = of_int (2 ^ nat ((exponent y - 23) - (exponent x - 23))) * px"
      unfolding px_def by (intro pow2_shift) simp
    with y have "y = of_int (n * 2 ^ nat ((exponent y - 23) - (exponent x - 23))) * px"
      by simp
    then obtain N where N: "y = of_int N * px" by blast
    with xy px have "x / px \<le> of_int N"
      by (simp add: divide_le_eq)
    then have "round_even (x / px) \<le> N" by (rule round_even_le)
    then have "of_int (round_even (x / px)) * px \<le> of_int N * px"
      using px by (intro mult_right_mono) simp_all
    with bx N show ?thesis by simp
  next
    case False
    then have lt: "exponent y < exponent x" by simp
    with exponent_ge [of y] have "- 126 < exponent x" by simp
    then have lo: "2 powi (exponent x) \<le> \<bar>x\<bar>" by (rule exponent_lower)
    from fy have "\<bar>y\<bar> < 2 ^ 128" by (simp add: is_binary32_def)
    then have "\<bar>y\<bar> < 2 powi (exponent y + 1)" by (rule exponent_upper)
    moreover from lt have "(2::real) powi (exponent y + 1) \<le> 2 powi (exponent x)"
      by (intro power_int_increasing) simp_all
    ultimately have ylt: "\<bar>y\<bar> < 2 powi (exponent x)" by simp
    with lo xy have xneg: "x \<le> - (2 powi (exponent x))" by linarith
    have split: "(2::real) powi (exponent x) = 2 ^ 23 * px"
      unfolding px_def by (rule pow2_split)
    from xneg split px have "x / px \<le> of_int (- (2 ^ 23))"
      by (simp add: divide_le_eq)
    then have "round_even (x / px) \<le> - (2 ^ 23)" by (rule round_even_le)
    then have "of_int (round_even (x / px)) * px \<le> of_int (- (2 ^ 23)) * px"
      using px by (intro mult_right_mono) simp_all
    with bx split have "binary32 x \<le> - (2 powi (exponent x))" by simp
    with ylt show ?thesis by linarith
  qed
qed

lemma binary32_ge:
  assumes yx: "y \<le> x" and fy: "is_binary32 y"
  shows "y \<le> binary32 x"
proof -
  define px where "px = (2::real) powi (exponent x - 23)"
  define n where "n = round_even (y / 2 powi (exponent y - 23))"
  have px: "0 < px" by (simp add: px_def)
  have y: "y = of_int n * 2 powi (exponent y - 23)"
    using fy by (simp add: is_binary32_def binary32_def n_def)
  have bx: "binary32 x = of_int (round_even (x / px)) * px"
    by (simp add: binary32_def px_def)
  show ?thesis
  proof (cases "exponent x \<le> exponent y")
    case True
    then have "(2::real) powi (exponent y - 23)
        = of_int (2 ^ nat ((exponent y - 23) - (exponent x - 23))) * px"
      unfolding px_def by (intro pow2_shift) simp
    with y have "y = of_int (n * 2 ^ nat ((exponent y - 23) - (exponent x - 23))) * px"
      by simp
    then obtain N where N: "y = of_int N * px" by blast
    with yx px have "of_int N \<le> x / px"
      by (simp add: le_divide_eq)
    then have "N \<le> round_even (x / px)" by (rule round_even_ge)
    then have "of_int N * px \<le> of_int (round_even (x / px)) * px"
      using px by (intro mult_right_mono) simp_all
    with bx N show ?thesis by simp
  next
    case False
    then have lt: "exponent y < exponent x" by simp
    with exponent_ge [of y] have "- 126 < exponent x" by simp
    then have lo: "2 powi (exponent x) \<le> \<bar>x\<bar>" by (rule exponent_lower)
    from fy have "\<bar>y\<bar> < 2 ^ 128" by (simp add: is_binary32_def)
    then have "\<bar>y\<bar> < 2 powi (exponent y + 1)" by (rule exponent_upper)
    moreover from lt have "(2::real) powi (exponent y + 1) \<le> 2 powi (exponent x)"
      by (intro power_int_increasing) simp_all
    ultimately have ylt: "\<bar>y\<bar> < 2 powi (exponent x)" by simp
    with lo yx have xpos: "2 powi (exponent x) \<le> x" by linarith
    have split: "(2::real) powi (exponent x) = 2 ^ 23 * px"
      unfolding px_def by (rule pow2_split)
    from xpos split px have "of_int (2 ^ 23) \<le> x / px"
      by (simp add: le_divide_eq)
    then have "2 ^ 23 \<le> round_even (x / px)" by (rule round_even_ge)
    then have "of_int (2 ^ 23) * px \<le> of_int (round_even (x / px)) * px"
      using px by (intro mult_right_mono) simp_all
    with bx split have "2 powi (exponent x) \<le> binary32 x" by simp
    with ylt show ?thesis by linarith
  qed
qed

lemma binary32_eqI:
  assumes "2 powi k \<le> \<bar>x\<bar>" and "\<bar>x\<bar> < 2 powi (k + 1)" and "- 126 \<le> k" and "k \<le> 127"
  shows "binary32 x = of_int (round_even (x / 2 powi (k - 23))) * 2 powi (k - 23)"
  using exponent_eqI [OF assms] by (simp add: binary32_def)

subsection \<open>The brightness chain in binary32\<close>

lemma setBrightness32_thresholds [simp]:
  "lowerThreshold (setBrightness32 s a b) = lowerThreshold s"
  "thresholdRange (setBrightness32 s a b) = thresholdRange s"
  "upperThreshold (setBrightness32 s a b) = upperThreshold s"
  by (simp_all add: setBrightness32_def Let_def)

lemma setLevels32_thresholds [simp]:
  "lowerThreshold (setLevels32 s a b c d) = lowerThreshold s"
  "thresholdRange (setLevels32 s a b c d) = thresholdRange s"
  "upperThreshold (setLevels32 s a b c d) = upperThreshold s"
  by (simp_all add: setLevels32_def Let_def)

lemma setLevels32_brightness:
  "fBrightness (setLevels32 s a b c d) = fBrightness (setBrightness32 s a b)"
  "fBrightnessOutline (setLevels32 s a b c d) = fBrightnessOutline (setBrightness32 s a b)"
  by (simp_all add: setLevels32_def Let_def)

lemma segment32_inv:
  "segment32 s \<Longrightarrow>
     is_binary32 (thresholdRange s)
     \<and> upperThreshold s = binary32 (lowerThreshold s + thresholdRange s)"
proof (induction rule: segment32.induct)
  case (seg32_new lo rng s hl)
  then show ?case
    by (simp add: GenericMeterSegment_new32_def Let_def setThresholds32_def)
next
  case (seg32_setThresholds s lo rng hl)
  then show ?case by (simp add: setThresholds32_def Let_def)
next
  case (seg32_setColour s h c)
  then show ?case by (simp add: setColour_def repaint_def)
next
  case (seg32_setLevels s a b c d)
  then show ?case by simp
next
  case (seg32_setNormalLevels s a c)
  then show ?case by (simp add: setNormalLevels32_def)
next
  case (seg32_setDiscreteLevels s b d)
  then show ?case by (simp add: setDiscreteLevels32_def)
qed

lemma binary32_literals:
  "binary32 0.97 = 16273900 / 16777216" "binary32 0.90 = 15099494 / 16777216"
  "binary32 0.25 = 1 / 4" "binary32 0.30 = 10066330 / 33554432"
  "binary32 0.72 = 12079596 / 16777216" "binary32 0.60 = 10066330 / 16777216"
  using binary32_eqI [of "- 1" "0.97"] binary32_eqI [of "- 1" "0.90"]
    binary32_eqI [of "- 2" "0.25"] binary32_eqI [of "- 2" "0.30"]
    binary32_eqI [of "- 1" "0.72"] binary32_eqI [of "- 1" "0.60"]
  by (simp_all add: round_even_def)

lemma binary32_values:
  "binary32 0 = 0" "binary32 1 = 1" "binary32 (1 / 4) = 1 / 4"
  "binary32 (10066330 / 33554432) = 10066330 / 33554432"
  "binary32 (12079596 / 16777216) = 12079596 / 16777216"
  "binary32 (10066330 / 16777216) = 10066330 / 16777216"
  "binary32 (16273900 / 16777216) = 16273900 / 16777216"
  "binary32 (15099495 / 16777216) = 15099495 / 16777216"
  using exponent_subnormal [of 0] binary32_eqI [of 0 1] binary32_eqI [of "- 2" "1 / 4"]
    binary32_eqI [of "- 2" "10066330 / 33554432"] binary32_eqI [of "- 1" "12079596 / 16777216"]
    binary32_eqI [of "- 1" "10066330 / 16777216"] binary32_eqI [of "- 1" "16273900 / 16777216"]
    binary32_eqI [of "- 1" "15099495 / 16777216"]
  by (simp_all add: round_even_def binary32_def)

lemma binary32_sums:
  "binary32 (binary32 0.72 + binary32 0.25) = 16273900 / 16777216"
  "binary32 (binary32 0.60 + binary32 0.30) = 15099495 / 16777216"
  unfolding binary32_literals using binary32_values by simp_all

lemma is_binary32_values:
  "is_binary32 0" "is_binary32 1" "is_binary32 (1 / 4)"
  "is_binary32 (10066330 / 33554432)" "is_binary32 (12079596 / 16777216)"
  "is_binary32 (10066330 / 16777216)" "is_binary32 (16273900 / 16777216)"
  "is_binary32 (15099495 / 16777216)"
  unfolding is_binary32_def using binary32_values by simp_all

text \<open>A ratio in [0, 1], scaled by a literal and offset by another, stays between
  the offset and any binary32 value that the exact sum of the two literals does not exceed.\<close>

lemma scale_offset_bounds:
  assumes r: "0 \<le> r" "r \<le> 1" and k: "0 \<le> k" "is_binary32 k" and c: "is_binary32 c"
    and t: "k + c \<le> t" "is_binary32 t"
  shows "c \<le> binary32 (binary32 (r * k) + c)" and "binary32 (binary32 (r * k) + c) \<le> t"
proof -
  from r k(1) have "0 \<le> r * k" by simp
  then have m0: "0 \<le> binary32 (r * k)"
    using is_binary32_values(1) by (rule binary32_ge)
  from r k(1) have "r * k \<le> k" by (simp add: mult_left_le_one_le)
  then have m1: "binary32 (r * k) \<le> k"
    using k(2) by (rule binary32_le)
  from m0 have "c \<le> binary32 (r * k) + c" by simp
  then show "c \<le> binary32 (binary32 (r * k) + c)"
    using c by (rule binary32_ge)
  from m1 t(1) have "binary32 (r * k) + c \<le> t" by simp
  then show "binary32 (binary32 (r * k) + c) \<le> t"
    using t(2) by (rule binary32_le)
qed

lemma ratio32_bounds:
  assumes up: "upperThreshold s = binary32 (lowerThreshold s + thresholdRange s)"
    and rng: "is_binary32 (thresholdRange s)" and pos: "0 < thresholdRange s"
    and a: "is_binary32 a" and lt: "a < upperThreshold s" and ge: "lowerThreshold s \<le> a"
  shows "0 \<le> binary32 (binary32 (a - lowerThreshold s) / thresholdRange s)"
    and "binary32 (binary32 (a - lowerThreshold s) / thresholdRange s) \<le> 1"
proof -
  have sum: "a \<le> lowerThreshold s + thresholdRange s"
  proof (rule ccontr)
    assume "\<not> a \<le> lowerThreshold s + thresholdRange s"
    then have "lowerThreshold s + thresholdRange s \<le> a" by simp
    then have "binary32 (lowerThreshold s + thresholdRange s) \<le> a"
      using a by (rule binary32_le)
    with lt up show False by simp
  qed
  from ge have "0 \<le> a - lowerThreshold s" by simp
  then have d0: "0 \<le> binary32 (a - lowerThreshold s)"
    using is_binary32_values(1) by (rule binary32_ge)
  from sum have "a - lowerThreshold s \<le> thresholdRange s" by simp
  then have d1: "binary32 (a - lowerThreshold s) \<le> thresholdRange s"
    using rng by (rule binary32_le)
  from d0 pos have "0 \<le> binary32 (a - lowerThreshold s) / thresholdRange s" by simp
  then show "0 \<le> binary32 (binary32 (a - lowerThreshold s) / thresholdRange s)"
    using is_binary32_values(1) by (rule binary32_ge)
  from d1 pos have "binary32 (a - lowerThreshold s) / thresholdRange s \<le> 1" by simp
  then show "binary32 (binary32 (a - lowerThreshold s) / thresholdRange s) \<le> 1"
    using is_binary32_values(2) by (rule binary32_le)
qed

lemma setBrightness32_bounds:
  assumes up: "upperThreshold s = binary32 (lowerThreshold s + thresholdRange s)"
    and rng: "is_binary32 (thresholdRange s)" and pos: "0 < thresholdRange s"
    and a: "is_binary32 a"
  shows "binary32 0.25 \<le> fBrightness (setBrightness32 s a b)
       \<and> fBrightness (setBrightness32 s a b) \<le> binary32 0.97
       \<and> binary32 0.30 \<le> fBrightnessOutline (setBrightness32 s a b)
       \<and> fBrightnessOutline (setBrightness32 s a b) \<le> binary32 (binary32 0.60 + binary32 0.30)"
proof (cases "upperThreshold s \<le> a \<or> (lowerThreshold s \<le> b \<and> b < upperThreshold s) \<or> a < lowerThreshold s")
  case True
  then show ?thesis
    unfolding setBrightness32_def binary32_sums unfolding binary32_literals by auto
next
  case False
  define r where "r = binary32 (binary32 (a - lowerThreshold s) / thresholdRange s)"
  from False have lt: "a < upperThreshold s" and ge: "lowerThreshold s \<le> a" by auto
  have r: "0 \<le> r" "r \<le> 1"
    unfolding r_def using ratio32_bounds [OF up rng pos a lt ge] by simp_all
  from False have br: "fBrightness (setBrightness32 s a b)
      = binary32 (binary32 (r * binary32 0.72) + binary32 0.25)"
    and ol: "fBrightnessOutline (setBrightness32 s a b)
      = binary32 (binary32 (r * binary32 0.60) + binary32 0.30)"
    by (auto simp: setBrightness32_def Let_def r_def)
  have b: "1 / 4 \<le> binary32 (binary32 (r * (12079596 / 16777216)) + 1 / 4)"
    "binary32 (binary32 (r * (12079596 / 16777216)) + 1 / 4) \<le> 16273900 / 16777216"
    using scale_offset_bounds [OF r, of "12079596 / 16777216" "1 / 4" "16273900 / 16777216"]
      is_binary32_values by simp_all
  have o: "10066330 / 33554432 \<le> binary32 (binary32 (r * (10066330 / 16777216)) + 10066330 / 33554432)"
    "binary32 (binary32 (r * (10066330 / 16777216)) + 10066330 / 33554432) \<le> 15099495 / 16777216"
    using scale_offset_bounds [OF r, of "10066330 / 16777216" "10066330 / 33554432"
        "15099495 / 16777216"] is_binary32_values by simp_all
  from b o show ?thesis
    unfolding br ol binary32_sums unfolding binary32_literals by blast
qed

lemma setBrightness32_interpolate:
  assumes "\<not> upperThreshold s \<le> a" and "\<not> (lowerThreshold s \<le> b \<and> b < upperThreshold s)"
    and "\<not> a < lowerThreshold s"
  shows "fBrightness (setBrightness32 s a b)
      = binary32 (binary32 (binary32 (binary32 (a - lowerThreshold s) / thresholdRange s)
                    * binary32 0.72) + binary32 0.25)"
    and "fBrightnessOutline (setBrightness32 s a b)
      = binary32 (binary32 (binary32 (binary32 (a - lowerThreshold s) / thresholdRange s)
                    * binary32 0.60) + binary32 0.30)"
  using assms by (auto simp: setBrightness32_def Let_def)

lemma new32_thresholds:
  "lowerThreshold (GenericMeterSegment_new32 s lo rng hl) = lo"
  "thresholdRange (GenericMeterSegment_new32 s lo rng hl) = rng"
  "upperThreshold (GenericMeterSegment_new32 s lo rng hl) = binary32 (lo + rng)"
  by (simp_all add: GenericMeterSegment_new32_def Let_def setThresholds32_def)

lemma is_binary32_args:
  "is_binary32 (- 10)" "is_binary32 10" "is_binary32 (- 1 / 8388608)"
  "is_binary32 (- 20)" "is_binary32 (- 15)"
  unfolding is_binary32_def
  using binary32_eqI [of 3 "- 10"] binary32_eqI [of 3 10] binary32_eqI [of "- 23" "- 1 / 8388608"]
    binary32_eqI [of 4 "- 20"] binary32_eqI [of 3 "- 15"]
  by (simp_all add: round_even_def)

lemma binary32_steps:
  "binary32 (- 1 / 8388608 - (- 10)) = 10" "binary32 (10 / 10) = 1"
  "binary32 (1 * (12079596 / 16777216)) = 12079596 / 16777216"
  "binary32 (1 * (10066330 / 16777216)) = 10066330 / 16777216"
  "binary32 (12079596 / 16777216 + 1 / 4) = 16273900 / 16777216"
  "binary32 (10066330 / 16777216 + 10066330 / 33554432) = 15099495 / 16777216"
  using binary32_eqI [of 3 "- 1 / 8388608 - (- 10)"] binary32_values
  by (simp_all add: round_even_def)

lemma binary32_steps2:
  "binary32 (- 20 + 10) = - 10" "binary32 (- 15 - (- 20)) = 5" "binary32 (5 / 10) = 1 / 2"
  "binary32 (1 / 2 * (12079596 / 16777216)) = 6039798 / 16777216"
  "binary32 (6039798 / 16777216 + 1 / 4) = 10234102 / 16777216"
  using binary32_eqI [of 3 "- 20 + 10"] binary32_eqI [of 2 "- 15 - (- 20)"]
    binary32_eqI [of "- 1" "5 / 10"] binary32_eqI [of "- 2" "1 / 2 * (12079596 / 16777216)"]
    binary32_eqI [of "- 1" "6039798 / 16777216 + 1 / 4"]
  by (simp_all add: round_even_def)

subsection \<open>Claims about the meter segment\<close>

text \<open>
  C7. Two segments with equal lower threshold, threshold range, upper threshold and
  \<^verbatim>\<open>hasHighestLevel\<close>, whatever their brightness, outline brightness and peak marker
  were, have the same brightness, outline brightness and peak marker after
  \<^verbatim>\<open>setLevels\<close> with the same four levels.
\<close>

theorem setLevels_stateless:
  assumes "lowerThreshold s = lowerThreshold t"
    and "thresholdRange s = thresholdRange t"
    and "upperThreshold s = upperThreshold t"
    and "hasHighestLevel s = hasHighestLevel t"
  shows "fBrightness (setLevels s a b c d) = fBrightness (setLevels t a b c d)
       \<and> fBrightnessOutline (setLevels s a b c d) = fBrightnessOutline (setLevels t a b c d)
       \<and> lightPeakMarker (setLevels s a b c d) = lightPeakMarker (setLevels t a b c d)"
proof -
  have br: "fBrightness (setBrightness s a b) = fBrightness (setBrightness t a b)"
    and ol: "fBrightnessOutline (setBrightness s a b) = fBrightnessOutline (setBrightness t a b)"
    using assms by (simp_all add: setBrightness_def Let_def)
  have "lightPeakMarker (setPeakMarker (setBrightness s a b) c d)
      = lightPeakMarker (setPeakMarker (setBrightness t a b) c d)"
    using assms by (simp add: setPeakMarker_def)
  with br ol show ?thesis
    by (simp add: setLevels_brightness setLevels_marker)
qed

theorem setLevels_stateless_witness:
  "lowerThreshold (snd (setThresholds raw_segment (- 20) 10 False)) = lowerThreshold lit_segment
   \<and> thresholdRange (snd (setThresholds raw_segment (- 20) 10 False)) = thresholdRange lit_segment
   \<and> upperThreshold (snd (setThresholds raw_segment (- 20) 10 False)) = upperThreshold lit_segment
   \<and> hasHighestLevel (snd (setThresholds raw_segment (- 20) 10 False)) = hasHighestLevel lit_segment
   \<and> fBrightness (snd (setThresholds raw_segment (- 20) 10 False)) \<noteq> fBrightness lit_segment
   \<and> lightPeakMarker (snd (setThresholds raw_segment (- 20) 10 False)) \<noteq> lightPeakMarker lit_segment
   \<and> fBrightness (setLevels (snd (setThresholds raw_segment (- 20) 10 False)) (- 15) (- 144) (- 12) (- 144)) = 0.61
   \<and> fBrightness (setLevels lit_segment (- 15) (- 144) (- 12) (- 144)) = 0.61
   \<and> fBrightnessOutline (setLevels lit_segment (- 15) (- 144) (- 12) (- 144)) = 0.60
   \<and> lightPeakMarker (setLevels lit_segment (- 15) (- 144) (- 12) (- 144))"
  using setLevels_stateless [of "snd (setThresholds raw_segment (- 20) 10 False)" lit_segment
      "- 15" "- 144" "- 12" "- 144"]
  by (simp add: setThresholds_def raw_segment_def lit_segment_def setLevels_def Let_def
      setBrightness_def setPeakMarker_def repaint_def)

text \<open>
  C8. For every prior state and all arguments, \<^verbatim>\<open>setThresholds\<close> returns the lower
  threshold plus the display range, leaves that sum in \<^verbatim>\<open>upperThreshold\<close>, and
  hides the peak marker.
\<close>

theorem setThresholds_result:
  "fst (setThresholds s fLowerThreshold fDisplayRange bHasHighestLevel) = fLowerThreshold + fDisplayRange
   \<and> upperThreshold (snd (setThresholds s fLowerThreshold fDisplayRange bHasHighestLevel))
       = fLowerThreshold + fDisplayRange
   \<and> lightPeakMarker (snd (setThresholds s fLowerThreshold fDisplayRange bHasHighestLevel)) = False"
  by (simp add: setThresholds_def Let_def)

text \<open>
  C9, as stated, fails in the binary32 arithmetic of the code. On a segment with lower
  threshold -10 and range 10 (upper threshold 0), the level \<open>-2^-23\<close> lies below the
  upper threshold; the difference \<open>10 - 2^-23\<close> of line 202 rounds to 10, the ratio is
  exactly 1, and line 208 leaves the outline brightness at the binary32 sum of
  \<^verbatim>\<open>0.60f\<close> and \<^verbatim>\<open>0.30f\<close>, \<open>15099495 / 2^24\<close>, which is above \<^verbatim>\<open>0.90f\<close>
  \<open>= 15099494 / 2^24\<close> and above 0.90.
\<close>

theorem setLevels_outline_counterexample:
  "segment32 (GenericMeterSegment_new32 raw_segment (- 10) 10 False)
   \<and> 0 < thresholdRange (GenericMeterSegment_new32 raw_segment (- 10) 10 False)
   \<and> is_binary32 (- 1 / 8388608)
   \<and> fBrightnessOutline (setLevels32 (GenericMeterSegment_new32 raw_segment (- 10) 10 False)
         (- 1 / 8388608) (- 144.0) (- 144.0) (- 144.0)) = 15099495 / 16777216
   \<and> binary32 0.90 = 15099494 / 16777216
   \<and> \<not> fBrightnessOutline (setLevels32 (GenericMeterSegment_new32 raw_segment (- 10) 10 False)
         (- 1 / 8388608) (- 144.0) (- 144.0) (- 144.0)) \<le> binary32 0.90
   \<and> \<not> fBrightnessOutline (setLevels32 (GenericMeterSegment_new32 raw_segment (- 10) 10 False)
         (- 1 / 8388608) (- 144.0) (- 144.0) (- 144.0)) \<le> 0.90"
proof -
  define S where "S = GenericMeterSegment_new32 raw_segment (- 10) 10 False"
  have seg: "segment32 S"
    unfolding S_def using is_binary32_args(1,2) by (rule seg32_new)
  have th: "lowerThreshold S = - 10" "thresholdRange S = 10" "upperThreshold S = 0"
    unfolding S_def new32_thresholds using binary32_values(1) by simp_all
  have "fBrightnessOutline (setBrightness32 S (- 1 / 8388608) (- 144.0))
      = binary32 (binary32 (binary32 (binary32 (- 1 / 8388608 - lowerThreshold S) / thresholdRange S)
                    * binary32 0.60) + binary32 0.30)"
    by (rule setBrightness32_interpolate) (simp_all add: th)
  also have "\<dots> = 15099495 / 16777216"
    unfolding th binary32_literals binary32_steps ..
  finally have out: "fBrightnessOutline (setLevels32 S (- 1 / 8388608) (- 144.0) (- 144.0) (- 144.0))
      = 15099495 / 16777216"
    by (simp add: setLevels32_brightness)
  from seg th(2) is_binary32_args(3) out binary32_literals(2) show ?thesis
    unfolding S_def by simp
qed

text \<open>
  C9, amended. For every segment whose threshold range is positive, after
  \<^verbatim>\<open>setLevels\<close> with a finite binary32 normal level and any other three levels, the
  brightness lies between \<^verbatim>\<open>0.25f\<close> and \<^verbatim>\<open>0.97f\<close> and the outline brightness between
  \<^verbatim>\<open>0.30f\<close> and the binary32 sum of \<^verbatim>\<open>0.60f\<close> and \<^verbatim>\<open>0.30f\<close>, which is
  \<open>15099495 / 2^24\<close>, one unit in the last place above \<^verbatim>\<open>0.90f\<close>; the brightness is
  neither 0.0 nor 1.0.
\<close>

theorem setLevels32_brightness_bounds:
  assumes "segment32 s" and "0 < thresholdRange s" and "is_binary32 a"
  shows "binary32 0.25 \<le> fBrightness (setLevels32 s a b c d)
       \<and> fBrightness (setLevels32 s a b c d) \<le> binary32 0.97
       \<and> binary32 0.30 \<le> fBrightnessOutline (setLevels32 s a b c d)
       \<and> fBrightnessOutline (setLevels32 s a b c d) \<le> binary32 (binary32 0.60 + binary32 0.30)
       \<and> binary32 (binary32 0.60 + binary32 0.30) = 15099495 / 16777216
       \<and> fBrightness (setLevels32 s a b c d) \<noteq> 0.0 \<and> fBrightness (setLevels32 s a b c d) \<noteq> 1.0"
proof -
  from assms(1) have rng: "is_binary32 (thresholdRange s)"
    and up: "upperThreshold s = binary32 (lowerThreshold s + thresholdRange s)"
    using segment32_inv by blast+
  note bounds = setBrightness32_bounds [OF up rng assms(2,3), of b]
  from bounds have "1 / 4 \<le> fBrightness (setBrightness32 s a b)"
    and "fBrightness (setBrightness32 s a b) \<le> 16273900 / 16777216"
    unfolding binary32_literals by blast+
  then have "fBrightness (setBrightness32 s a b) \<noteq> 0.0"
    and "fBrightness (setBrightness32 s a b) \<noteq> 1.0"
    by simp_all
  with bounds binary32_sums(2) show ?thesis
    unfolding setLevels32_brightness by blast
qed

theorem setLevels32_brightness_bounds_witness:
  "segment32 (GenericMeterSegment_new32 raw_segment (- 20) 10 False)
   \<and> 0 < thresholdRange (GenericMeterSegment_new32 raw_segment (- 20) 10 False)
   \<and> is_binary32 (- 15)
   \<and> fBrightness (setLevels32 (GenericMeterSegment_new32 raw_segment (- 20) 10 False)
         (- 15) (- 144.0) (- 12) (- 144.0)) = 10234102 / 16777216
   \<and> binary32 0.25 \<le> fBrightness (setLevels32 (GenericMeterSegment_new32 raw_segment (- 20) 10 False)
         (- 15) (- 144.0) (- 12) (- 144.0))
   \<and> fBrightness (setLevels32 (GenericMeterSegment_new32 raw_segment (- 20) 10 False)
         (- 15) (- 144.0) (- 12) (- 144.0)) \<le> binary32 0.97
   \<and> binary32 0.30 \<le> fBrightnessOutline (setLevels32 (GenericMeterSegment_new32 raw_segment (- 20) 10 False)
         (- 15) (- 144.0) (- 12) (- 144.0))
   \<and> fBrightnessOutline (setLevels32 (GenericMeterSegment_new32 raw_segment (- 20) 10 False)
         (- 15) (- 144.0) (- 12) (- 144.0)) \<le> binary32 (binary32 0.60 + binary32 0.30)"
proof -
  define S where "S = GenericMeterSegment_new32 raw_segment (- 20) 10 False"
  have seg: "segment32 S"
    unfolding S_def using is_binary32_args(4,2) by (rule seg32_new)
  have th: "lowerThreshold S = - 20" "thresholdRange S = 10" "upperThreshold S = - 10"
    unfolding S_def new32_thresholds binary32_steps2 by simp_all
  have pos: "0 < thresholdRange S" by (simp add: th)
  have "fBrightness (setBrightness32 S (- 15) (- 144.0))
      = binary32 (binary32 (binary32 (binary32 (- 15 - lowerThreshold S) / thresholdRange S)
                    * binary32 0.72) + binary32 0.25)"
    by (rule setBrightness32_interpolate) (simp_all add: th)
  also have "\<dots> = 10234102 / 16777216"
    unfolding th binary32_literals binary32_steps2 ..
  finally have val: "fBrightness (setLevels32 S (- 15) (- 144.0) (- 12) (- 144.0))
      = 10234102 / 16777216"
    by (simp add: setLevels32_brightness)
  from setLevels32_brightness_bounds [OF seg pos is_binary32_args(5), of "- 144.0" "- 12" "- 144.0"]
    seg pos is_binary32_args(5) val
  show ?thesis unfolding S_def by blast
qed

text \<open>
  C10. \<^verbatim>\<open>setNormalLevels\<close> is \<^verbatim>\<open>setLevels\<close> with both discrete levels at -144.0,
  and \<^verbatim>\<open>setDiscreteLevels\<close> is \<^verbatim>\<open>setLevels\<close> with both normal levels at -144.0:
  the same state results, repaint requests included.
\<close>

theorem setNormalLevels_setDiscreteLevels:
  "setNormalLevels s normalLevel normalLevelPeak
     = setLevels s normalLevel (- 144.0) normalLevelPeak (- 144.0)
   \<and> setDiscreteLevels s discreteLevel discreteLevelPeak
     = setLevels s (- 144.0) discreteLevel (- 144.0) discreteLevelPeak"
  by (simp add: setNormalLevels_def setDiscreteLevels_def)

theorem setNormalLevels_setDiscreteLevels_witness:
  "setNormalLevels lit_segment (- 15) (- 12) = setLevels lit_segment (- 15) (- 144.0) (- 12) (- 144.0)
   \<and> setDiscreteLevels lit_segment (- 15) (- 12) = setLevels lit_segment (- 144.0) (- 15) (- 144.0) (- 12)
   \<and> fBrightness (setNormalLevels lit_segment (- 15) (- 12)) = 0.61
   \<and> repaints (setNormalLevels lit_segment (- 15) (- 12)) = 5
   \<and> fBrightness (setDiscreteLevels lit_segment (- 15) (- 12)) = 0.97
   \<and> repaints (setDiscreteLevels lit_segment (- 15) (- 12)) = 4"
proof -
  have "fBrightness (setLevels lit_segment (- 15) (- 144.0) (- 12) (- 144.0)) = 0.61"
    "repaints (setLevels lit_segment (- 15) (- 144.0) (- 12) (- 144.0)) = 5"
    "fBrightness (setLevels lit_segment (- 144.0) (- 15) (- 144.0) (- 12)) = 0.97"
    "repaints (setLevels lit_segment (- 144.0) (- 15) (- 144.0) (- 12)) = 4"
    by (simp_all add: lit_segment_def setLevels_def Let_def setBrightness_def setPeakMarker_def
        repaint_def)
  with setNormalLevels_setDiscreteLevels [of lit_segment "- 15" "- 12" "- 15" "- 12"]
  show ?thesis by simp
qed

section \<open>Properties of the dither unit\<close>

subsection \<open>What the two member functions set and keep\<close>

lemma initialise_Inr:
  assumes "initialise D e n c = Inr e'"
  shows "0 < n" and "isConfigured e'" and "dWordLengthInverted e' = 1 / 2 ^ nat (n - 1)"
    and "dNoiseShaping e' = c" and "dWordLength e' = of_int n"
    and "dErrorFeedback_1 e' = 0" and "dErrorFeedback_2 e' = 0"
    and "dDitherAmplitude e' = amplitude_of D n" and "dDcOffset e' = dc_offset_of D n"
    and "nRandomNumber_1 e' = nRandomNumber_1 e" and "nRandomNumber_2 e' = nRandomNumber_2 e"
  using assms by (auto simp: initialise_def split: if_splits)

lemma dither_Inr:
  assumes "isConfigured e"
  shows "dither D e x =
     Inr (quantise e (ditheredInput D e x),
          (advanceRng D e)\<lparr>dErrorFeedback_2 := dErrorFeedback_1 e,
             dErrorFeedback_1 := quantise e (ditheredInput D e x) - shapedInput e x\<rparr>)"
  using assms by (simp add: dither_def Let_def quantise_def advanceRng_def ditheredInput_def)

lemma dither_keeps:
  assumes "dither D e x = Inr (q, e')"
  shows "isConfigured e'" and "dWordLengthInverted e' = dWordLengthInverted e"
    and "dNoiseShaping e' = dNoiseShaping e" and "dDitherAmplitude e' = dDitherAmplitude e"
    and "dDcOffset e' = dDcOffset e" and "dWordLength e' = dWordLength e"
proof -
  from assms have c: "isConfigured e"
    by (simp add: dither_def split: if_splits)
  from assms show "isConfigured e'" and "dWordLengthInverted e' = dWordLengthInverted e"
    and "dNoiseShaping e' = dNoiseShaping e" and "dDitherAmplitude e' = dDitherAmplitude e"
    and "dDcOffset e' = dDcOffset e" and "dWordLength e' = dWordLength e"
    unfolding dither_Inr [OF c] using c by (auto simp: advanceRng_def)
qed

text \<open>A Configured engine is marked so, and its quantization step is the positive
  \<open>1 / 2^(wordLength - 1)\<close> of its word length.\<close>

lemma configured_inv:
  "configured D e \<Longrightarrow>
     isConfigured e \<and> 0 < dWordLengthInverted e
     \<and> dWordLengthInverted e = 1 / 2 ^ nat (\<lfloor>dWordLength e\<rfloor> - 1)"
proof (induction rule: configured.induct)
  case (cfg_initialise e0 n c e)
  then show ?case by (simp add: initialise_Inr)
next
  case (cfg_dither e x q e')
  then show ?case by (simp add: dither_keeps)
qed

text \<open>Rounding to the nearest multiple of a positive step moves a value by at most half
  a step.\<close>

lemma quantise_near:
  assumes "0 < dWordLengthInverted e"
  shows "\<bar>quantise e y - y\<bar> \<le> dWordLengthInverted e / 2"
proof -
  define w where "w = dWordLengthInverted e"
  have w: "0 < w" using assms by (simp add: w_def)
  have "\<bar>of_int (round (y / w)) - y / w\<bar> \<le> 1 / 2"
    by (rule of_int_round_abs_le)
  then have "\<bar>of_int (round (y / w)) - y / w\<bar> * w \<le> 1 / 2 * w"
    using w by (intro mult_right_mono) simp_all
  moreover have "\<bar>of_int (round (y / w)) - y / w\<bar> * w = \<bar>of_int (round (y / w)) * w - y\<bar>"
  proof -
    have "\<bar>of_int (round (y / w)) - y / w\<bar> * w = \<bar>(of_int (round (y / w)) - y / w) * w\<bar>"
      using w by (simp add: abs_mult)
    also have "(of_int (round (y / w)) - y / w) * w = of_int (round (y / w)) * w - y"
      using w by (simp add: algebra_simps)
    finally show ?thesis .
  qed
  ultimately show ?thesis by (simp add: quantise_def w_def)
qed

text \<open>In the Configured state a sequence of calls returns one output per sample.\<close>

lemma dither_all_total:
  "isConfigured e \<Longrightarrow> \<exists>outs e'. dither_all D e xs = Inr (outs, e') \<and> length outs = length xs"
proof (induction xs arbitrary: e)
  case Nil
  show ?case by simp
next
  case (Cons x xs)
  from Cons.prems obtain q e1 where d: "dither D e x = Inr (q, e1)"
    by (auto simp: dither_Inr)
  then have "isConfigured e1" by (rule dither_keeps)
  from Cons.IH [OF this] obtain outs e2 where
    "dither_all D e1 xs = Inr (outs, e2)" and "length outs = length xs"
    by blast
  with d show ?case by simp
qed

text \<open>Without noise shaping, a call after reseeding is plain TPDF-dithered quantization
  whatever the error feedback history holds.\<close>

lemma dither_unshaped:
  assumes "isConfigured e" and "dNoiseShaping e = 0"
  shows "\<exists>e'. dither D (e\<lparr>nRandomNumber_1 := a, nRandomNumber_2 := b\<rparr>) x
               = Inr (plainTpdf D e a b x, e')"
  using assms
  by (simp add: dither_def Let_def shapedInput_def advanceRng_def tpdfDither_def quantise_def
      plainTpdf_def)

lemma plainTpdf_cong:
  assumes "dWordLengthInverted e' = dWordLengthInverted e"
    and "dDitherAmplitude e' = dDitherAmplitude e" and "dDcOffset e' = dDcOffset e"
  shows "plainTpdf D e' a b = plainTpdf D e a b"
  using assms by (simp add: plainTpdf_def quantise_def fun_eq_iff)

lemma dither_reseeded_unshaped:
  "isConfigured e \<Longrightarrow> dNoiseShaping e = 0 \<Longrightarrow>
     \<exists>e'. dither_reseeded D a b e xs = Inr (map (plainTpdf D e a b) xs, e')"
proof (induction xs arbitrary: e)
  case Nil
  show ?case by simp
next
  case (Cons x xs)
  from dither_unshaped [OF Cons.prems] obtain e1 where
    d: "dither D (e\<lparr>nRandomNumber_1 := a, nRandomNumber_2 := b\<rparr>) x
          = Inr (plainTpdf D e a b x, e1)"
    by blast
  have keep: "isConfigured e1" "dNoiseShaping e1 = dNoiseShaping e"
    "dWordLengthInverted e1 = dWordLengthInverted e"
    "dDitherAmplitude e1 = dDitherAmplitude e" "dDcOffset e1 = dDcOffset e"
    using dither_keeps [OF d] by simp_all
  from keep Cons.prems have "isConfigured e1" and "dNoiseShaping e1 = 0"
    by simp_all
  from Cons.IH [OF this] obtain e2 where
    "dither_reseeded D a b e1 xs = Inr (map (plainTpdf D e1 a b) xs, e2)"
    by blast
  moreover have "plainTpdf D e1 a b = plainTpdf D e a b"
    using keep by (intro plainTpdf_cong)
  ultimately show ?case using d by simp
qed

text \<open>Whenever the dither deviate of the next call is not zero, some input sample gives a
  quantization error of more than half a quantization step.\<close>

lemma dither_error_exceeds:
  assumes c: "isConfigured e" and w: "0 < dWordLengthInverted e"
    and d: "tpdfDither D (advanceRng D e) \<noteq> 0"
  shows "\<exists>x q e'. dither D e x = Inr (q, e')
           \<and> dWordLengthInverted e / 2 < \<bar>q - shapedInput e x\<bar>"
proof -
  define step where "step = dWordLengthInverted e"
  define dev where "dev = tpdfDither D (advanceRng D e)"
  define fb where "fb = dNoiseShaping e * (2 * dErrorFeedback_1 e - dErrorFeedback_2 e)"
  have step: "0 < step" using w by (simp add: step_def)
  have shaped: "shapedInput e x = x + fb" for x
    by (simp add: shapedInput_def fb_def)
  have out: "\<exists>e'. dither D e x = Inr (of_int (round ((x + fb + dev) / step)) * step, e')" for x
    using dither_Inr [OF c, of D x]
    by (simp add: quantise_def ditheredInput_def shaped step_def dev_def)
  show ?thesis
  proof (cases "0 < dev")
    case True
    define x where "x = step / 2 - dev / 2 - fb"
    have "(x + fb + dev) / step = 1 / 2 + dev / (2 * step)"
      using step by (simp add: x_def field_simps)
    then have "round ((x + fb + dev) / step) = \<lfloor>1 + dev / (2 * step)\<rfloor>"
      by (simp add: round_def)
    moreover have "1 \<le> \<lfloor>1 + dev / (2 * step)\<rfloor>"
      using True step by (simp add: le_floor_iff)
    ultimately have "1 \<le> round ((x + fb + dev) / step)" by simp
    then have "(1::real) \<le> of_int (round ((x + fb + dev) / step))" by linarith
    then have "1 * step \<le> of_int (round ((x + fb + dev) / step)) * step"
      using step by (intro mult_right_mono) simp_all
    then have "step / 2 + dev / 2 \<le> of_int (round ((x + fb + dev) / step)) * step - (x + fb)"
      by (simp add: x_def)
    with True have "step / 2 < \<bar>of_int (round ((x + fb + dev) / step)) * step - (x + fb)\<bar>"
      by linarith
    with out [of x] show ?thesis
      unfolding shaped step_def by blast
  next
    case False
    with d have neg: "dev < 0" by (simp add: dev_def)
    define x where "x = - step / 2 - dev / 2 - fb"
    have "(x + fb + dev) / step = - 1 / 2 + dev / (2 * step)"
      using step by (simp add: x_def field_simps)
    then have "round ((x + fb + dev) / step) = \<lfloor>dev / (2 * step)\<rfloor>"
      by (simp add: round_def)
    moreover have "dev / (2 * step) < 0"
      using neg step by (simp add: divide_neg_pos)
    then have "\<lfloor>dev / (2 * step)\<rfloor> \<le> - 1"
      by (simp add: floor_le_iff)
    ultimately have "round ((x + fb + dev) / step) \<le> - 1" by simp
    then have "of_int (round ((x + fb + dev) / step)) \<le> (- 1 :: real)" by linarith
    then have "of_int (round ((x + fb + dev) / step)) * step \<le> (- 1) * step"
      using step by (intro mult_right_mono) simp_all
    then have "of_int (round ((x + fb + dev) / step)) * step - (x + fb) \<le> - step / 2 + dev / 2"
      by (simp add: x_def)
    with neg have "step / 2 < \<bar>of_int (round ((x + fb + dev) / step)) * step - (x + fb)\<bar>"
      by linarith
    with out [of x] show ?thesis
      unfolding shaped step_def by blast
  qed
qed

subsection \<open>Claims about the dither unit\<close>

text \<open>
  C1. A call of \<^verbatim>\<open>initialise\<close> (\<^verbatim>\<open>configure\<close>) raises if and only if the number of
  bits is not positive, and the error is then \<open>InvalidConfiguration\<close>; for every positive
  number of bits, inside the usual range or not, and every coefficient, the call succeeds
  and the engine is Configured with that word length and coefficient.
\<close>

theorem initialise_raises_iff:
  "(isl (initialise D e number_of_bits noise_shaping) \<longleftrightarrow> number_of_bits \<le> 0)
   \<and> (number_of_bits \<le> 0 \<longrightarrow>
        initialise D e number_of_bits noise_shaping = Inl InvalidConfiguration)
   \<and> (0 < number_of_bits \<longrightarrow>
        (\<exists>e'. initialise D e number_of_bits noise_shaping = Inr e' \<and> isConfigured e'
           \<and> dWordLength e' = of_int number_of_bits \<and> dNoiseShaping e' = noise_shaping))"
  by (simp add: initialise_def)

theorem initialise_raises_iff_witness:
  "initialise lcg_design raw_engine 0 0.5 = Inl InvalidConfiguration
   \<and> initialise lcg_design raw_engine (- 3) 0.5 = Inl InvalidConfiguration
   \<and> initialise lcg_design raw_engine 16 0.5 = Inr engine16
   \<and> (\<exists>e'. initialise lcg_design raw_engine 1 0.5 = Inr e' \<and> isConfigured e'
         \<and> dWordLength e' = 1 \<and> dNoiseShaping e' = 0.5)
   \<and> (\<exists>e'. initialise lcg_design raw_engine 1000 7 = Inr e' \<and> isConfigured e'
         \<and> dWordLength e' = 1000 \<and> dNoiseShaping e' = 7)"
proof -
  have "initialise lcg_design raw_engine 16 0.5 = Inr engine16"
    by (simp add: initialise_def lcg_design_def raw_engine_def engine16_def)
  with initialise_raises_iff [of lcg_design raw_engine 0 "0.5"]
    initialise_raises_iff [of lcg_design raw_engine "- 3" "0.5"]
    initialise_raises_iff [of lcg_design raw_engine 1 "0.5"]
    initialise_raises_iff [of lcg_design raw_engine 1000 7]
  show ?thesis by simp
qed

text \<open>
  C2, as stated, fails: the value that is rounded is the shaped input plus the dither
  deviate, and the error computed in \<^verbatim>\<open>dither\<close> (\<^verbatim>\<open>process\<close>) is taken against the
  shaped input. After \<^verbatim>\<open>initialise(16, 0.5)\<close> the step is \<open>1/32768\<close>; the sample
  \<open>-1/81920\<close> (0.4 of a step below zero) is shaped to itself, the deviate is about
  \<open>-0.26\<close> of a step, the result is \<open>-1/32768\<close>, and the error \<open>-3/163840\<close>
  is 0.6 of a step.
\<close>

theorem dither_error_counterexample:
  "initialise lcg_design raw_engine 16 0.5 = Inr engine16
   \<and> dither lcg_design engine16 (- 1 / 81920)
       = Inr (- 1 / 32768,
              engine16\<lparr>nRandomNumber_1 := 1015568748, nRandomNumber_2 := 1017233273,
                dErrorFeedback_2 := 0, dErrorFeedback_1 := - 3 / 163840\<rparr>)
   \<and> shapedInput engine16 (- 1 / 81920) = - 1 / 81920
   \<and> - 1 / 32768 - shapedInput engine16 (- 1 / 81920) = - 3 / 163840
   \<and> dWordLengthInverted engine16 / 2 = 1 / 65536
   \<and> \<not> \<bar>- 1 / 32768 - shapedInput engine16 (- 1 / 81920)\<bar> \<le> dWordLengthInverted engine16 / 2"
  by (simp add: initialise_def dither_def Let_def engine16_def raw_engine_def advanceRng_def
      tpdfDither_def shapedInput_def quantise_def round_def lcg_design_def lcg_update_def
      lcg_deviate_def)

text \<open>
  C2, amended. For every Configured engine and every input sample, \<^verbatim>\<open>dither\<close>
  returns, the error it stores is the quantized result minus the shaped input, the
  quantized result lies within half a quantization step of the value that was rounded
  (the shaped input plus the dither deviate), and so the error is at most half a step
  plus the size of the deviate. The step is \<open>1 / 2^(wordLength - 1)\<close>.
\<close>

theorem dither_quantization_error:
  assumes "configured D e"
  shows "\<exists>q e'. dither D e x = Inr (q, e')
           \<and> dErrorFeedback_1 e' = q - shapedInput e x
           \<and> \<bar>q - (shapedInput e x + tpdfDither D (advanceRng D e))\<bar> \<le> dWordLengthInverted e / 2
           \<and> \<bar>q - shapedInput e x\<bar> \<le> dWordLengthInverted e / 2 + \<bar>tpdfDither D (advanceRng D e)\<bar>
           \<and> dWordLengthInverted e = 1 / 2 ^ nat (\<lfloor>dWordLength e\<rfloor> - 1)"
proof -
  from assms have c: "isConfigured e" and w: "0 < dWordLengthInverted e"
    and s: "dWordLengthInverted e = 1 / 2 ^ nat (\<lfloor>dWordLength e\<rfloor> - 1)"
    using configured_inv by blast+
  define y where "y = shapedInput e x + tpdfDither D (advanceRng D e)"
  define q where "q = quantise e y"
  have near: "\<bar>q - y\<bar> \<le> dWordLengthInverted e / 2"
    unfolding q_def using w by (rule quantise_near)
  have "\<bar>q - shapedInput e x\<bar> = \<bar>(q - y) + tpdfDither D (advanceRng D e)\<bar>"
    by (simp add: y_def)
  also have "\<dots> \<le> \<bar>q - y\<bar> + \<bar>tpdfDither D (advanceRng D e)\<bar>"
    by (rule abs_triangle_ineq)
  finally have far: "\<bar>q - shapedInput e x\<bar>
      \<le> dWordLengthInverted e / 2 + \<bar>tpdfDither D (advanceRng D e)\<bar>"
    using near by simp
  have "dither D e x = Inr (q, (advanceRng D e)\<lparr>dErrorFeedback_2 := dErrorFeedback_1 e,
      dErrorFeedback_1 := q - shapedInput e x\<rparr>)"
    using dither_Inr [OF c, of D x] by (simp add: q_def y_def ditheredInput_def)
  moreover have "dErrorFeedback_1 ((advanceRng D e)\<lparr>dErrorFeedback_2 := dErrorFeedback_1 e,
      dErrorFeedback_1 := q - shapedInput e x\<rparr>) = q - shapedInput e x"
    by simp
  ultimately show ?thesis
    using near far s unfolding y_def by blast
qed

theorem dither_quantization_error_witness:
  "configured lcg_design engine16
   \<and> tpdfDither lcg_design (advanceRng lcg_design engine16) = - 1131082637 / 140737488355328
   \<and> (\<exists>q e'. dither lcg_design engine16 (- 1 / 81920) = Inr (q, e')
         \<and> dErrorFeedback_1 e' = q - shapedInput engine16 (- 1 / 81920)
         \<and> \<bar>q - (shapedInput engine16 (- 1 / 81920)
                  + tpdfDither lcg_design (advanceRng lcg_design engine16))\<bar>
             \<le> dWordLengthInverted engine16 / 2
         \<and> \<bar>q - shapedInput engine16 (- 1 / 81920)\<bar>
             \<le> dWordLengthInverted engine16 / 2
                + \<bar>tpdfDither lcg_design (advanceRng lcg_design engine16)\<bar>)"
proof -
  have "initialise lcg_design raw_engine 16 0.5 = Inr engine16"
    by (simp add: initialise_def lcg_design_def raw_engine_def engine16_def)
  then have c: "configured lcg_design engine16"
    by (rule cfg_initialise)
  have v: "tpdfDither lcg_design (advanceRng lcg_design engine16)
      = - 1131082637 / 140737488355328"
    by (simp add: engine16_def advanceRng_def tpdfDither_def lcg_design_def lcg_update_def
        lcg_deviate_def)
  from dither_quantization_error [OF c, of "- 1 / 81920"] c v show ?thesis
    by blast
qed

text \<open>
  C3. Two engines, whatever they held before, that are configured with the same
  arguments and have the same generator states, and are fed the same sequence of samples,
  return the same sequence of outputs, one per sample.
\<close>

theorem dither_deterministic:
  assumes "initialise D a n c = Inr a'" and "initialise D b n c = Inr b'"
    and "nRandomNumber_1 a = nRandomNumber_1 b" and "nRandomNumber_2 a = nRandomNumber_2 b"
  shows "\<exists>outs ea eb. dither_all D a' xs = Inr (outs, ea) \<and> dither_all D b' xs = Inr (outs, eb)
           \<and> length outs = length xs"
proof -
  have "a' = b'"
    using assms by (cases a, cases b) (auto simp: initialise_def split: if_splits)
  moreover from assms(1) have "isConfigured a'"
    by (rule initialise_Inr)
  from dither_all_total [OF this, of D xs] obtain outs ea where
    "dither_all D a' xs = Inr (outs, ea)" and "length outs = length xs"
    by blast
  ultimately show ?thesis by blast
qed

theorem dither_deterministic_witness:
  "initialise lcg_design raw_engine 16 0.5 = Inr engine16
   \<and> initialise lcg_design used_engine 16 0.5 = Inr engine16
   \<and> nRandomNumber_1 raw_engine = nRandomNumber_1 used_engine
   \<and> nRandomNumber_2 raw_engine = nRandomNumber_2 used_engine
   \<and> raw_engine \<noteq> used_engine
   \<and> (\<exists>outs ea eb. dither_all lcg_design engine16 [- 1 / 81920, 0, 0.3] = Inr (outs, ea)
         \<and> dither_all lcg_design engine16 [- 1 / 81920, 0, 0.3] = Inr (outs, eb)
         \<and> length outs = length [- 1 / 81920, 0, 0.3 :: real])"
proof -
  have a: "initialise lcg_design raw_engine 16 0.5 = Inr engine16"
    by (simp add: initialise_def lcg_design_def raw_engine_def engine16_def)
  have b: "initialise lcg_design used_engine 16 0.5 = Inr engine16"
    by (simp add: initialise_def lcg_design_def used_engine_def engine16_def)
  have r1: "nRandomNumber_1 raw_engine = nRandomNumber_1 used_engine"
    and r2: "nRandomNumber_2 raw_engine = nRandomNumber_2 used_engine"
    by (simp_all add: raw_engine_def used_engine_def)
  have ne: "raw_engine \<noteq> used_engine"
    by (simp add: raw_engine_def used_engine_def)
  from dither_deterministic [OF a b r1 r2, of "[- 1 / 81920, 0, 0.3]"] a b r1 r2 ne
  show ?thesis by blast
qed

text \<open>
  C4. For a Configured engine whose noise shaping coefficient is 0, with both generators
  reseeded to the same states before each call, every output is the plain TPDF-dithered
  quantization of its input sample, whatever the error feedback history holds (any
  \<open>fa\<close> and \<open>fb\<close>); hence a permutation of the input sequence pairs each input with
  the same output.
\<close>

theorem dither_unshaped_order_independent:
  assumes "configured D e" and "dNoiseShaping e = 0" and "mset ys = mset xs"
  shows "(\<exists>ex ey. dither_reseeded D a b e xs = Inr (map (plainTpdf D e a b) xs, ex)
           \<and> dither_reseeded D a b e ys = Inr (map (plainTpdf D e a b) ys, ey)
           \<and> mset (zip ys (map (plainTpdf D e a b) ys)) = mset (zip xs (map (plainTpdf D e a b) xs)))
       \<and> map_sum id fst (dither D (e\<lparr>dErrorFeedback_1 := fa, dErrorFeedback_2 := fb,
                                      nRandomNumber_1 := a, nRandomNumber_2 := b\<rparr>) x)
           = Inr (plainTpdf D e a b x)"
proof -
  from assms(1) have c: "isConfigured e"
    using configured_inv by blast
  have "\<exists>e'. dither D (e\<lparr>dErrorFeedback_1 := fa, dErrorFeedback_2 := fb,
                         nRandomNumber_1 := a, nRandomNumber_2 := b\<rparr>) x
               = Inr (plainTpdf D (e\<lparr>dErrorFeedback_1 := fa, dErrorFeedback_2 := fb\<rparr>) a b x, e')"
    using dither_unshaped [where e = "e\<lparr>dErrorFeedback_1 := fa, dErrorFeedback_2 := fb\<rparr>"
        and D = D and a = a and b = b and x = x]
      c assms(2) by simp
  moreover have "plainTpdf D (e\<lparr>dErrorFeedback_1 := fa, dErrorFeedback_2 := fb\<rparr>) a b
      = plainTpdf D e a b"
    by (rule plainTpdf_cong) simp_all
  ultimately have hist: "map_sum id fst (dither D (e\<lparr>dErrorFeedback_1 := fa,
      dErrorFeedback_2 := fb, nRandomNumber_1 := a, nRandomNumber_2 := b\<rparr>) x)
      = Inr (plainTpdf D e a b x)"
    by auto
  from dither_reseeded_unshaped [OF c assms(2)] obtain ex where
    x: "dither_reseeded D a b e xs = Inr (map (plainTpdf D e a b) xs, ex)"
    by blast
  from dither_reseeded_unshaped [OF c assms(2)] obtain ey where
    y: "dither_reseeded D a b e ys = Inr (map (plainTpdf D e a b) ys, ey)"
    by blast
  have "zip zs (map (plainTpdf D e a b) zs) = map (\<lambda>z. (z, plainTpdf D e a b z)) zs" for zs
    by (induction zs) simp_all
  then have "mset (zip ys (map (plainTpdf D e a b) ys)) = mset (zip xs (map (plainTpdf D e a b) xs))"
    using assms(3) by simp
  with x y hist show ?thesis by blast
qed

theorem dither_unshaped_order_independent_witness:
  "configured lcg_design (engine16\<lparr>dNoiseShaping := 0\<rparr>)
   \<and> dNoiseShaping (engine16\<lparr>dNoiseShaping := 0\<rparr>) = 0
   \<and> mset [- 1 / 81920, 0.3 :: real] = mset [0.3, - 1 / 81920]
   \<and> (\<exists>ex ey.
        dither_reseeded lcg_design 1 2 (engine16\<lparr>dNoiseShaping := 0\<rparr>) [0.3, - 1 / 81920]
          = Inr ([9830 / 32768, - 1 / 32768], ex)
      \<and> dither_reseeded lcg_design 1 2 (engine16\<lparr>dNoiseShaping := 0\<rparr>) [- 1 / 81920, 0.3]
          = Inr ([- 1 / 32768, 9830 / 32768], ey))
   \<and> map_sum id fst (dither lcg_design (engine16\<lparr>dNoiseShaping := 0, dErrorFeedback_1 := 5,
         dErrorFeedback_2 := - 3, nRandomNumber_1 := 1, nRandomNumber_2 := 2\<rparr>) 0.3)
       = Inr (9830 / 32768)"
proof -
  have "initialise lcg_design raw_engine 16 0 = Inr (engine16\<lparr>dNoiseShaping := 0\<rparr>)"
    by (simp add: initialise_def lcg_design_def raw_engine_def engine16_def)
  then have c: "configured lcg_design (engine16\<lparr>dNoiseShaping := 0\<rparr>)"
    by (rule cfg_initialise)
  have z: "dNoiseShaping (engine16\<lparr>dNoiseShaping := 0\<rparr>) = 0"
    by simp
  have m: "mset [- 1 / 81920, 0.3 :: real] = mset [0.3, - 1 / 81920]"
    by simp
  have p: "plainTpdf lcg_design (engine16\<lparr>dNoiseShaping := 0\<rparr>) 1 2 (- 1 / 81920) = - 1 / 32768"
    "plainTpdf lcg_design (engine16\<lparr>dNoiseShaping := 0\<rparr>) 1 2 0.3 = 9830 / 32768"
    by (simp_all add: plainTpdf_def quantise_def round_def engine16_def lcg_design_def
        lcg_update_def lcg_deviate_def)
  from dither_unshaped_order_independent [OF c z m, where a = 1 and b = 2 and fa = 5 and fb = "- 3" and x = "0.3"]
  have "(\<exists>ex ey.
        dither_reseeded lcg_design 1 2 (engine16\<lparr>dNoiseShaping := 0\<rparr>) [0.3, - 1 / 81920]
          = Inr ([9830 / 32768, - 1 / 32768], ex)
      \<and> dither_reseeded lcg_design 1 2 (engine16\<lparr>dNoiseShaping := 0\<rparr>) [- 1 / 81920, 0.3]
          = Inr ([- 1 / 32768, 9830 / 32768], ey))
    \<and> map_sum id fst (dither lcg_design (engine16\<lparr>dNoiseShaping := 0, dErrorFeedback_1 := 5,
         dErrorFeedback_2 := - 3, nRandomNumber_1 := 1, nRandomNumber_2 := 2\<rparr>) 0.3)
       = Inr (9830 / 32768)"
    unfolding list.map p by blast
  with c z m show ?thesis
    by blast
qed

text \<open>
  C5. The header gives the noise shaping parameter of the constructor and of
  \<^verbatim>\<open>initialise\<close> the default 0.5: a call that leaves the argument out runs with 0.5,
  and a call that passes a value runs with that value.
\<close>

theorem noise_shaping_default:
  "Dither_args number_of_bits None = (number_of_bits, 0.5)
   \<and> initialise_args number_of_bits None = (number_of_bits, 0.5)
   \<and> Dither_args number_of_bits (Some v) = (number_of_bits, v)
   \<and> initialise_args number_of_bits (Some v) = (number_of_bits, v)"
  by (simp add: Dither_args_def initialise_args_def)

text \<open>
  C6. For every engine and every pair of arguments, the dither amplitude and the DC
  offset correction after two calls of \<^verbatim>\<open>initialise\<close> in succession with these
  arguments are those after one call.
\<close>

theorem initialise_idempotent:
  "dDitherAmplitude (reconfigured D (reconfigured D e n c) n c)
     = dDitherAmplitude (reconfigured D e n c)
   \<and> dDcOffset (reconfigured D (reconfigured D e n c) n c) = dDcOffset (reconfigured D e n c)"
  by (simp add: reconfigured_def initialise_def)

end
